theory Spec2Isabelle
  imports Main "HOL-Library.Word"
begin

unbundle bit_operations_syntax

section \<open>The host's SHA-256 primitive\<close>

text \<open>
  \<^verbatim>\<open>crypto.subtle.digest("SHA-256", pixels)\<close> is a primitive of the platform, not code of
  the repository.  It is modelled by the function of FIPS 180-4 on byte lists, so that the
  digest of a concrete buffer can be computed and its length is a theorem, not an assumption.
\<close>

type_synonym byte = "8 word"
type_synonym u32 = "32 word"

definition rotr :: "nat \<Rightarrow> u32 \<Rightarrow> u32" where
  "rotr n x = (drop_bit n x) OR (push_bit (32 - n) x)"

definition Ch :: "u32 \<Rightarrow> u32 \<Rightarrow> u32 \<Rightarrow> u32" where
  "Ch x y z = (x AND y) XOR (NOT x AND z)"

definition Maj :: "u32 \<Rightarrow> u32 \<Rightarrow> u32 \<Rightarrow> u32" where
  "Maj x y z = (x AND y) XOR (x AND z) XOR (y AND z)"

definition Sigma0 :: "u32 \<Rightarrow> u32" where
  "Sigma0 x = rotr 2 x XOR rotr 13 x XOR rotr 22 x"

definition Sigma1 :: "u32 \<Rightarrow> u32" where
  "Sigma1 x = rotr 6 x XOR rotr 11 x XOR rotr 25 x"

definition sigma0 :: "u32 \<Rightarrow> u32" where
  "sigma0 x = rotr 7 x XOR rotr 18 x XOR drop_bit 3 x"

definition sigma1 :: "u32 \<Rightarrow> u32" where
  "sigma1 x = rotr 17 x XOR rotr 19 x XOR drop_bit 10 x"

text \<open>
  The standard gives its constants by rule: the first 32 bits of the fractional parts of
  the cube roots of the first 64 primes (round constants) and of the square roots of the
  first 8 primes (initial hash value).  \<open>root_floor k n b 0\<close> is the greatest \<open>r\<close> below
  \<open>2 ^ b\<close> with \<open>r ^ k \<le> n\<close>, found bit by bit from the top.
\<close>

definition first_primes :: "int list" where
  "first_primes =
     [2, 3, 5, 7, 11, 13, 17, 19, 23, 29, 31, 37, 41, 43, 47, 53, 59, 61, 67, 71, 73, 79, 83,
      89, 97, 101, 103, 107, 109, 113, 127, 131, 137, 139, 149, 151, 157, 163, 167, 173, 179,
      181, 191, 193, 197, 199, 211, 223, 227, 229, 233, 239, 241, 251, 257, 263, 269, 271, 277,
      281, 283, 293, 307, 311]"

fun root_floor :: "nat \<Rightarrow> int \<Rightarrow> nat \<Rightarrow> int \<Rightarrow> int" where
  "root_floor k n 0 r = r"
| "root_floor k n (Suc b) r =
     root_floor k n b (if (r + 2 ^ b) ^ k \<le> n then r + 2 ^ b else r)"

definition frac_root_bits :: "nat \<Rightarrow> int \<Rightarrow> u32" where
  "frac_root_bits k p = word_of_int (root_floor k (p * 2 ^ (32 * k)) 35 0)"

definition K256 :: "u32 list" where
  "K256 = map (frac_root_bits 3) first_primes"

text \<open>Big-endian packing of four bytes into a word, and back.\<close>

definition be32 :: "byte \<Rightarrow> byte \<Rightarrow> byte \<Rightarrow> byte \<Rightarrow> u32" where
  "be32 a b c d = push_bit 24 (ucast a) OR push_bit 16 (ucast b) OR push_bit 8 (ucast c) OR ucast d"

definition bytes_of_u32 :: "u32 \<Rightarrow> byte list" where
  "bytes_of_u32 w = [ucast (drop_bit 24 w), ucast (drop_bit 16 w), ucast (drop_bit 8 w), ucast w]"

fun words_of_bytes :: "byte list \<Rightarrow> u32 list" where
  "words_of_bytes (a # b # c # d # rest) = be32 a b c d # words_of_bytes rest"
| "words_of_bytes _ = []"

text \<open>Padding: a 1 bit, zeros up to 56 mod 64, then the bit length as 64-bit big-endian.\<close>

definition bytes_of_u64 :: "64 word \<Rightarrow> byte list" where
  "bytes_of_u64 w = map (\<lambda>i. ucast (drop_bit (8 * (7 - i)) w)) [0..<8]"

definition sha_pad :: "byte list \<Rightarrow> byte list" where
  "sha_pad m =
     m @ [0x80] @ replicate ((119 - length m mod 64) mod 64) 0
       @ bytes_of_u64 (word_of_nat (8 * length m))"

text \<open>Message schedule: extend the 16 block words to 64, newest word first in the accumulator.\<close>

fun schedule :: "nat \<Rightarrow> u32 list \<Rightarrow> u32 list" where
  "schedule 0 ws = ws"
| "schedule (Suc n) ws =
     schedule n (ws @ [sigma1 (ws ! (length ws - 2)) + ws ! (length ws - 7)
                       + sigma0 (ws ! (length ws - 15)) + ws ! (length ws - 16)])"

type_synonym sha_state = "u32 \<times> u32 \<times> u32 \<times> u32 \<times> u32 \<times> u32 \<times> u32 \<times> u32"

definition round256 :: "sha_state \<Rightarrow> u32 \<times> u32 \<Rightarrow> sha_state" where
  "round256 s kw =
     (case s of (a, b, c, d, e, f, g, h) \<Rightarrow>
        let t1 = h + Sigma1 e + Ch e f g + fst kw + snd kw;
            t2 = Sigma0 a + Maj a b c
        in (t1 + t2, a, b, c, d + t1, e, f, g))"

definition add_state :: "sha_state \<Rightarrow> sha_state \<Rightarrow> sha_state" where
  "add_state s t =
     (case s of (a, b, c, d, e, f, g, h) \<Rightarrow>
      case t of (a', b', c', d', e', f', g', h') \<Rightarrow>
        (a + a', b + b', c + c', d + d', e + e', f + f', g + g', h + h'))"

definition compress :: "sha_state \<Rightarrow> byte list \<Rightarrow> sha_state" where
  "compress s block =
     add_state s (foldl round256 s (zip K256 (schedule 48 (words_of_bytes block))))"

definition H0 :: sha_state where
  "H0 = (frac_root_bits 2 2, frac_root_bits 2 3, frac_root_bits 2 5, frac_root_bits 2 7,
         frac_root_bits 2 11, frac_root_bits 2 13, frac_root_bits 2 17, frac_root_bits 2 19)"

fun blocks :: "nat \<Rightarrow> byte list \<Rightarrow> byte list list" where
  "blocks 0 bs = []"
| "blocks (Suc n) bs = take 64 bs # blocks n (drop 64 bs)"

definition bytes_of_state :: "sha_state \<Rightarrow> byte list" where
  "bytes_of_state s =
     (case s of (a, b, c, d, e, f, g, h) \<Rightarrow>
        concat (map bytes_of_u32 [a, b, c, d, e, f, g, h]))"

definition sha256 :: "byte list \<Rightarrow> byte list" where
  "sha256 m =
     (let p = sha_pad m
      in bytes_of_state (foldl compress H0 (blocks (length p div 64) p)))"

section \<open>JavaScript string helpers used by the encoding step\<close>

text \<open>
  \<^verbatim>\<open>b.toString(16)\<close> on a non-negative integer: the digits of \<open>b\<close> in base 16, lowercase,
  without leading zeros.
\<close>

definition hexDigit :: "nat \<Rightarrow> char" where
  "hexDigit d = ''0123456789abcdef'' ! d"

function toString16 :: "nat \<Rightarrow> string" where
  "toString16 n =
     (if n < 16 then [hexDigit n] else toString16 (n div 16) @ [hexDigit (n mod 16)])"
  by pat_completeness auto
termination
  by (relation "measure (\<lambda>n. n)") auto

declare toString16.simps [simp del]

text \<open>
  \<^verbatim>\<open>s.padStart(target, pad)\<close>: \<open>s\<close> itself when it is long enough or the filler is empty,
  otherwise the filler repeated and cut to the missing length, in front of \<open>s\<close>.
\<close>

definition padStart :: "nat \<Rightarrow> string \<Rightarrow> string \<Rightarrow> string" where
  "padStart target pad s =
     (if target \<le> length s \<or> pad = [] then s
      else take (target - length s) (concat (replicate (target - length s) pad)) @ s)"

text \<open>\<^verbatim>\<open>xs.join(sep)\<close>.\<close>

fun join :: "string \<Rightarrow> string list \<Rightarrow> string" where
  "join sep [] = []"
| "join sep [x] = x"
| "join sep (x # y # ys) = x @ sep @ join sep (y # ys)"

text \<open>String concatenation with a value that may be \<open>null\<close>: \<^verbatim>\<open>"a" + null\<close> is \<^verbatim>\<open>"anull"\<close>.\<close>

definition plus_str :: "string \<Rightarrow> string option \<Rightarrow> string" where
  "plus_str s v = s @ (case v of None \<Rightarrow> ''null'' | Some t \<Rightarrow> t)"

section \<open>The host: DOM, WebGL context, console\<close>

datatype GLenum =
    VERTEX_SHADER | FRAGMENT_SHADER | COMPILE_STATUS | LINK_STATUS
  | ARRAY_BUFFER | STATIC_DRAW | FLOAT | COLOR_BUFFER_BIT | TRIANGLES
  | RGBA | UNSIGNED_BYTE

text \<open>Opaque host objects.  A nullable reference is an \<open>option\<close>, \<open>None\<close> being \<open>null\<close>.\<close>

datatype WebGLShader = WebGLShader nat

datatype WebGLProgram = WebGLProgram nat

datatype WebGLBuffer = WebGLBuffer nat

datatype WebGLUniformLocation = WebGLUniformLocation nat

datatype Element = Element nat

record CSSStyleDeclaration =
  style_position :: string
  style_top :: string
  style_width :: string
  style_height :: string

text \<open>
  A canvas element: \<open>width\<close> and \<open>height\<close> are the dimensions of the drawing buffer
  (\<^verbatim>\<open>canvas.width\<close>, \<^verbatim>\<open>canvas.height\<close>); the CSS box is in \<open>style\<close>.
\<close>

record HTMLCanvasElement =
  width :: nat
  height :: nat
  style :: CSSStyleDeclaration

text \<open>
  The answers of a WebGL context.  Methods that return nothing have no field; every call,
  with its arguments, is recorded in the trace below.  \<open>gl_readPixels\<close> gives the bytes the
  host writes for a read of the given rectangle into the given buffer.
\<close>

record WebGLRenderingContext =
  gl_createShader :: "GLenum \<Rightarrow> WebGLShader option"
  gl_getShaderParameter :: "WebGLShader \<Rightarrow> GLenum \<Rightarrow> bool"
  gl_getShaderInfoLog :: "WebGLShader \<Rightarrow> string option"
  gl_createProgram :: "WebGLProgram option"
  gl_getProgramParameter :: "WebGLProgram option \<Rightarrow> GLenum \<Rightarrow> bool"
  gl_getProgramInfoLog :: "WebGLProgram option \<Rightarrow> string option"
  gl_createBuffer :: "WebGLBuffer option"
  gl_getAttribLocation :: "WebGLProgram \<Rightarrow> string \<Rightarrow> int"
  gl_getUniformLocation :: "WebGLProgram \<Rightarrow> string \<Rightarrow> WebGLUniformLocation option"
  gl_readPixels :: "int \<Rightarrow> int \<Rightarrow> nat \<Rightarrow> nat \<Rightarrow> GLenum \<Rightarrow> GLenum \<Rightarrow> byte list \<Rightarrow> byte list"

record Host =
  createElement :: "string \<Rightarrow> HTMLCanvasElement"
  getContext :: "string \<Rightarrow> WebGLRenderingContext option"
  getElementById :: "string \<Rightarrow> Element option"

text \<open>Every call the program makes into the host, in program order.\<close>

datatype call =
    CreateElement string
  | GetContext string
  | ConsoleError string
  | ConsoleLog "string list"
  | CreateShader GLenum
  | ShaderSource WebGLShader string
  | CompileShader WebGLShader
  | GetShaderParameter WebGLShader GLenum
  | GetShaderInfoLog WebGLShader
  | DeleteShader WebGLShader
  | CreateProgram
  | AttachShader "WebGLProgram option" WebGLShader
  | LinkProgram "WebGLProgram option"
  | GetProgramParameter "WebGLProgram option" GLenum
  | GetProgramInfoLog "WebGLProgram option"
  | UseProgram WebGLProgram
  | CreateBuffer
  | BindBuffer GLenum "WebGLBuffer option"
  | BufferData GLenum "int list" GLenum
  | GetAttribLocation WebGLProgram string
  | EnableVertexAttribArray int
  | VertexAttribPointer int nat GLenum bool nat nat
  | GetUniformLocation WebGLProgram string
  | Uniform4f "WebGLUniformLocation option" int int int int
  | ClearColor int int int int
  | Clear GLenum
  | DrawArrays GLenum nat nat
  | ReadPixels int int nat nat GLenum GLenum "byte list"
  | Digest string "byte list"
  | GetElementById string
  | SetTextContent Element string

datatype error = Error string | TypeError

text \<open>
  What one invocation leaves behind: the calls made, the canvas element it created (never
  released), and the value the promise settles with (\<open>Inl\<close>: rejected).
\<close>

record run =
  calls :: "call list"
  canvas :: HTMLCanvasElement
  result :: "error + string"

text \<open>
  A typed array has a fixed length: whatever the host writes, the buffer keeps its size.
  Bytes beyond the buffer are dropped, bytes the host does not write keep their old value.
\<close>

definition writeInto :: "byte list \<Rightarrow> byte list \<Rightarrow> byte list" where
  "writeInto buf written = take (length buf) written @ drop (length written) buf"

definition readPixelsInto ::
  "WebGLRenderingContext \<Rightarrow> int \<Rightarrow> int \<Rightarrow> nat \<Rightarrow> nat \<Rightarrow> GLenum \<Rightarrow> GLenum \<Rightarrow> byte list \<Rightarrow> byte list" where
  "readPixelsInto gl x y w h format type buf =
     writeInto buf (gl_readPixels gl x y w h format type buf)"

section \<open>fingerprint.ts\<close>

definition nl :: string where
  "nl = [CHR 0x0A]"

definition vertexShaderSource :: string where
  "vertexShaderSource =
     nl @ ''  attribute vec2 aVertexPosition;'' @ nl
        @ ''  void main() {'' @ nl
        @ ''    gl_Position = vec4(aVertexPosition, 0, 1);'' @ nl
        @ ''  }'' @ nl"

definition fragmentShaderSource :: string where
  "fragmentShaderSource =
     nl @ ''  precision mediump float;'' @ nl
        @ ''  uniform vec4 uColor;'' @ nl
        @ ''  void main() {'' @ nl
        @ ''    gl_FragColor = uColor;'' @ nl
        @ ''  }'' @ nl"

text \<open>
  \<^verbatim>\<open>createShader(gl, type, source)\<close>: the calls it makes and the shader it returns
  (\<open>None\<close> for \<open>null\<close>).
\<close>

definition createShader ::
  "WebGLRenderingContext \<Rightarrow> GLenum \<Rightarrow> string \<Rightarrow> call list \<times> WebGLShader option" where
  "createShader gl type source =
     (case gl_createShader gl type of
        None \<Rightarrow> ([CreateShader type, ConsoleError ''Error creating shader.''], None)
      | Some shader \<Rightarrow>
          if \<not> gl_getShaderParameter gl shader COMPILE_STATUS
          then ([CreateShader type, ShaderSource shader source, CompileShader shader,
                 GetShaderParameter shader COMPILE_STATUS,
                 GetShaderInfoLog shader,
                 ConsoleError (plus_str ''An error occurred compiling the shaders: ''
                                 (gl_getShaderInfoLog gl shader)),
                 DeleteShader shader], None)
          else ([CreateShader type, ShaderSource shader source, CompileShader shader,
                 GetShaderParameter shader COMPILE_STATUS], Some shader))"

text \<open>
  \<^verbatim>\<open>createShaderProgram(gl, vertexSource, fragmentSource)\<close>.  Both stages are compiled before
  either result is looked at.  The result of \<^verbatim>\<open>gl.createProgram()\<close> is not checked: it goes
  to the following calls, and to the caller, as it is.
\<close>

definition createShaderProgram ::
  "WebGLRenderingContext \<Rightarrow> string \<Rightarrow> string \<Rightarrow> call list \<times> WebGLProgram option" where
  "createShaderProgram gl vertexSource fragmentSource =
     (let (tv, vertexShader) = createShader gl VERTEX_SHADER vertexSource;
          (tf, fragmentShader) = createShader gl FRAGMENT_SHADER fragmentSource
      in case vertexShader of
           None \<Rightarrow> (tv @ tf, None)
         | Some vs \<Rightarrow>
             (case fragmentShader of
                None \<Rightarrow> (tv @ tf, None)
              | Some fs \<Rightarrow>
                  (let program = gl_createProgram gl;
                       t = tv @ tf @
                           [CreateProgram, AttachShader program vs, AttachShader program fs,
                            LinkProgram program, GetProgramParameter program LINK_STATUS]
                   in if \<not> gl_getProgramParameter gl program LINK_STATUS
                      then (t @ [GetProgramInfoLog program,
                                 ConsoleError
                                   (plus_str ''Unable to initialize the shader program: ''
                                      (gl_getProgramInfoLog gl program))], None)
                      else (t, program))))"

text \<open>
  \<^verbatim>\<open>createDeviceFingerprint()\<close>.  The float literals of the source (vertices, colours) are
  all integral and are carried as integers.
\<close>

definition createDeviceFingerprint :: "Host \<Rightarrow> run" where
  "createDeviceFingerprint host =
     (let canvas0 = createElement host ''canvas'';
          t0 = [CreateElement ''canvas'', GetContext ''webgl'']
      in case getContext host ''webgl'' of
           None \<Rightarrow>
             \<lparr>calls = t0, canvas = canvas0, result = Inl (Error ''WebGL is not supported'')\<rparr>
         | Some gl \<Rightarrow>
             (let canvas1 = canvas0\<lparr>style := (style canvas0)
                              \<lparr>style_position := ''absolute'', style_top := ''-9999px'',
                               style_width := ''1px'', style_height := ''1px''\<rparr>\<rparr>
              in case createShaderProgram gl vertexShaderSource fragmentShaderSource of
                   (t1, None) \<Rightarrow>
                     \<lparr>calls = t0 @ t1, canvas = canvas1,
                      result = Inl (Error ''Shader program could not be initialized'')\<rparr>
                 | (t1, Some shaderProgram) \<Rightarrow>
                     (let vertices = [0, 1, - 1, - 1, 1, - 1];
                          vertexBuffer = gl_createBuffer gl;
                          positionAttribLocation =
                            gl_getAttribLocation gl shaderProgram ''aVertexPosition'';
                          colorUniformLocation =
                            gl_getUniformLocation gl shaderProgram ''uColor'';
                          pixels0 = replicate (width canvas1 * height canvas1 * 4) 0;
                          pixels = readPixelsInto gl 0 0 (width canvas1) (height canvas1)
                                     RGBA UNSIGNED_BYTE pixels0;
                          hashBuffer = sha256 pixels;
                          hashArray = map unat hashBuffer;
                          hashHex = join '''' (map (\<lambda>b. padStart 2 ''0'' (toString16 b)) hashArray)
                      in \<lparr>calls = t0 @ t1 @
                            [UseProgram shaderProgram,
                             CreateBuffer,
                             BindBuffer ARRAY_BUFFER vertexBuffer,
                             BufferData ARRAY_BUFFER vertices STATIC_DRAW,
                             GetAttribLocation shaderProgram ''aVertexPosition'',
                             EnableVertexAttribArray positionAttribLocation,
                             VertexAttribPointer positionAttribLocation 2 FLOAT False 0 0,
                             GetUniformLocation shaderProgram ''uColor'',
                             Uniform4f colorUniformLocation 1 1 0 1,
                             ClearColor 0 0 0 1,
                             Clear COLOR_BUFFER_BIT,
                             DrawArrays TRIANGLES 0 3,
                             ReadPixels 0 0 (width canvas1) (height canvas1)
                               RGBA UNSIGNED_BYTE pixels0,
                             Digest ''SHA-256'' pixels],
                          canvas = canvas1, result = Inr hashHex\<rparr>)))"

section \<open>fp.js\<close>

text \<open>
  The untyped file, translated on its own: the same three functions, without type
  annotations and without the non-null assertions (\<^verbatim>\<open>!\<close>), which exist at compile time only.
\<close>

definition vertexShaderSource_js :: string where
  "vertexShaderSource_js =
     nl @ ''  attribute vec2 aVertexPosition;'' @ nl
        @ ''  void main() {'' @ nl
        @ ''    gl_Position = vec4(aVertexPosition, 0, 1);'' @ nl
        @ ''  }'' @ nl"

definition fragmentShaderSource_js :: string where
  "fragmentShaderSource_js =
     nl @ ''  precision mediump float;'' @ nl
        @ ''  uniform vec4 uColor;'' @ nl
        @ ''  void main() {'' @ nl
        @ ''    gl_FragColor = uColor;'' @ nl
        @ ''  }'' @ nl"

definition createShader_js ::
  "WebGLRenderingContext \<Rightarrow> GLenum \<Rightarrow> string \<Rightarrow> call list \<times> WebGLShader option" where
  "createShader_js gl type source =
     (let shader = gl_createShader gl type
      in case shader of
           None \<Rightarrow> ([CreateShader type, ConsoleError ''Error creating shader.''], None)
         | Some sh \<Rightarrow>
             (let t = [CreateShader type, ShaderSource sh source, CompileShader sh,
                       GetShaderParameter sh COMPILE_STATUS]
              in if \<not> gl_getShaderParameter gl sh COMPILE_STATUS
                 then (t @ [GetShaderInfoLog sh,
                            ConsoleError (plus_str ''An error occurred compiling the shaders: ''
                                            (gl_getShaderInfoLog gl sh)),
                            DeleteShader sh], None)
                 else (t, shader)))"

definition createShaderProgram_js ::
  "WebGLRenderingContext \<Rightarrow> string \<Rightarrow> string \<Rightarrow> call list \<times> WebGLProgram option" where
  "createShaderProgram_js gl vertexSource fragmentSource =
     (let (tv, vertexShader) = createShader_js gl VERTEX_SHADER vertexSource;
          (tf, fragmentShader) = createShader_js gl FRAGMENT_SHADER fragmentSource
      in case vertexShader of
           None \<Rightarrow> (tv @ tf, None)
         | Some vs \<Rightarrow>
             (case fragmentShader of
                None \<Rightarrow> (tv @ tf, None)
              | Some fs \<Rightarrow>
                  (let program = gl_createProgram gl;
                       t = tv @ tf @
                           [CreateProgram, AttachShader program vs, AttachShader program fs,
                            LinkProgram program, GetProgramParameter program LINK_STATUS]
                   in if \<not> gl_getProgramParameter gl program LINK_STATUS
                      then (t @ [GetProgramInfoLog program,
                                 ConsoleError
                                   (plus_str ''Unable to initialize the shader program: ''
                                      (gl_getProgramInfoLog gl program))], None)
                      else (t, program))))"

definition createDeviceFingerprint_js :: "Host \<Rightarrow> run" where
  "createDeviceFingerprint_js host =
     (let canvas0 = createElement host ''canvas'';
          t0 = [CreateElement ''canvas'', GetContext ''webgl'']
      in case getContext host ''webgl'' of
           None \<Rightarrow>
             \<lparr>calls = t0, canvas = canvas0, result = Inl (Error ''WebGL is not supported'')\<rparr>
         | Some gl \<Rightarrow>
             (let canvas1 = canvas0\<lparr>style := (style canvas0)\<lparr>style_position := ''absolute''\<rparr>\<rparr>;
                  canvas2 = canvas1\<lparr>style := (style canvas1)\<lparr>style_top := ''-9999px''\<rparr>\<rparr>;
                  canvas3 = canvas2\<lparr>style := (style canvas2)\<lparr>style_width := ''1px''\<rparr>\<rparr>;
                  canvas4 = canvas3\<lparr>style := (style canvas3)\<lparr>style_height := ''1px''\<rparr>\<rparr>;
                  (t1, shaderProgram) =
                    createShaderProgram_js gl vertexShaderSource_js fragmentShaderSource_js
              in case shaderProgram of
                   None \<Rightarrow>
                     \<lparr>calls = t0 @ t1, canvas = canvas4,
                      result = Inl (Error ''Shader program could not be initialized'')\<rparr>
                 | Some program \<Rightarrow>
                     (let t2 = [UseProgram program];
                          vertices = [0, 1, - 1, - 1, 1, - 1];
                          vertexBuffer = gl_createBuffer gl;
                          t3 = [CreateBuffer, BindBuffer ARRAY_BUFFER vertexBuffer,
                                BufferData ARRAY_BUFFER vertices STATIC_DRAW];
                          positionAttribLocation =
                            gl_getAttribLocation gl program ''aVertexPosition'';
                          t4 = [GetAttribLocation program ''aVertexPosition'',
                                EnableVertexAttribArray positionAttribLocation,
                                VertexAttribPointer positionAttribLocation 2 FLOAT False 0 0];
                          colorUniformLocation = gl_getUniformLocation gl program ''uColor'';
                          t5 = [GetUniformLocation program ''uColor'',
                                Uniform4f colorUniformLocation 1 1 0 1];
                          t6 = [ClearColor 0 0 0 1, Clear COLOR_BUFFER_BIT,
                                DrawArrays TRIANGLES 0 3];
                          pixels0 = replicate (width canvas4 * height canvas4 * 4) 0;
                          pixels = readPixelsInto gl 0 0 (width canvas4) (height canvas4)
                                     RGBA UNSIGNED_BYTE pixels0;
                          t7 = [ReadPixels 0 0 (width canvas4) (height canvas4)
                                  RGBA UNSIGNED_BYTE pixels0];
                          hashBuffer = sha256 pixels;
                          t8 = [Digest ''SHA-256'' pixels];
                          hashArray = map unat hashBuffer;
                          hashHex =
                            join '''' (map (\<lambda>b. padStart 2 ''0'' (toString16 b)) hashArray)
                      in \<lparr>calls = t0 @ t1 @ t2 @ t3 @ t4 @ t5 @ t6 @ t7 @ t8,
                          canvas = canvas4, result = Inr hashHex\<rparr>)))"

section \<open>The two entry points\<close>

text \<open>
  The statements at the end of each file: the calls made in all, and the error of a
  rejection nobody handles, if any.  \<^verbatim>\<open>fingerprintEl.textContent = ...\<close> on \<open>null\<close> is a
  \<open>TypeError\<close>.
\<close>

definition fingerprint_ts :: "Host \<Rightarrow> call list \<times> error option" where
  "fingerprint_ts host =
     (let r = createDeviceFingerprint host
      in case result r of
           Inl e \<Rightarrow> (calls r, Some e)
         | Inr fingerprint \<Rightarrow>
             (calls r @ [ConsoleLog [''Device fingerprint:'', fingerprint]], None))"

definition fp_js :: "Host \<Rightarrow> call list \<times> error option" where
  "fp_js host =
     (let r = createDeviceFingerprint_js host
      in case result r of
           Inl e \<Rightarrow> (calls r, Some e)
         | Inr fingerprint \<Rightarrow>
             (case getElementById host ''fingerprint'' of
                None \<Rightarrow> (calls r @ [GetElementById ''fingerprint''], Some TypeError)
              | Some fingerprintEl \<Rightarrow>
                  (calls r @ [GetElementById ''fingerprint'',
                              SetTextContent fingerprintEl fingerprint], None)))"

section \<open>Vocabulary of the properties\<close>

text \<open>
  The encoding as the specification words it: every byte becomes its high and its low
  nibble, each written as one of \<open>0\<close>..\<open>9\<close>, \<open>a\<close>..\<open>f\<close>, in buffer order, nothing in between.
\<close>

definition hex_char :: "nat \<Rightarrow> char" where
  "hex_char d = (if d < 10 then char_of (48 + d) else char_of (87 + d))"

definition hex_encode :: "byte list \<Rightarrow> string" where
  "hex_encode bs = concat (map (\<lambda>b. [hex_char (unat b div 16), hex_char (unat b mod 16)]) bs)"

definition lowercase_hex :: "string \<Rightarrow> bool" where
  "lowercase_hex s = list_all (\<lambda>c. c \<in> set ''0123456789abcdef'') s"

text \<open>
  The contents of \<^verbatim>\<open>pixels\<close> after the read, for the canvas the host creates and the
  context \<open>gl\<close> it hands out.
\<close>

definition readback :: "Host \<Rightarrow> WebGLRenderingContext \<Rightarrow> byte list" where
  "readback host gl =
     (let c = createElement host ''canvas''
      in readPixelsInto gl 0 0 (width c) (height c) RGBA UNSIGNED_BYTE
           (replicate (width c * height c * 4) 0))"

text \<open>What the host answers when a stage compiles, and when the program links.\<close>

definition compiles :: "WebGLRenderingContext \<Rightarrow> GLenum \<Rightarrow> bool" where
  "compiles gl type =
     (case gl_createShader gl type of
        None \<Rightarrow> False
      | Some shader \<Rightarrow> gl_getShaderParameter gl shader COMPILE_STATUS)"

definition links :: "WebGLRenderingContext \<Rightarrow> bool" where
  "links gl = gl_getProgramParameter gl (gl_createProgram gl) LINK_STATUS"

text \<open>Classes of calls.\<close>

fun is_ReadPixels :: "call \<Rightarrow> bool" where
  "is_ReadPixels (ReadPixels x y w h format type buf) = True"
| "is_ReadPixels _ = False"

fun is_Digest :: "call \<Rightarrow> bool" where
  "is_Digest (Digest alg bytes) = True"
| "is_Digest _ = False"

fun is_CompileShader :: "call \<Rightarrow> bool" where
  "is_CompileShader (CompileShader sh) = True"
| "is_CompileShader _ = False"

fun is_LinkProgram :: "call \<Rightarrow> bool" where
  "is_LinkProgram (LinkProgram p) = True"
| "is_LinkProgram _ = False"

fun is_sink :: "call \<Rightarrow> bool" where
  "is_sink (ConsoleLog xs) = True"
| "is_sink (GetElementById name) = True"
| "is_sink (SetTextContent el s) = True"
| "is_sink _ = False"


section \<open>Mock hosts\<close>

text \<open>
  A context that reports success for every call and reads back zero bytes, on canvases of
  a given size; and variants of it that fail at one place each.
\<close>

definition mock_gl :: WebGLRenderingContext where
  "mock_gl =
     \<lparr>gl_createShader = (\<lambda>t. Some (WebGLShader (if t = VERTEX_SHADER then 1 else 2))),
      gl_getShaderParameter = (\<lambda>sh pname. True),
      gl_getShaderInfoLog = (\<lambda>sh. Some ''''),
      gl_createProgram = Some (WebGLProgram 3),
      gl_getProgramParameter = (\<lambda>p pname. True),
      gl_getProgramInfoLog = (\<lambda>p. Some ''''),
      gl_createBuffer = Some (WebGLBuffer 4),
      gl_getAttribLocation = (\<lambda>p name. 0),
      gl_getUniformLocation = (\<lambda>p name. Some (WebGLUniformLocation 5)),
      gl_readPixels = (\<lambda>x y w h format type buf. replicate (w * h * 4) 0)\<rparr>"

definition mock_canvas :: "nat \<Rightarrow> nat \<Rightarrow> HTMLCanvasElement" where
  "mock_canvas w h =
     \<lparr>width = w, height = h,
      style = \<lparr>style_position = '''', style_top = '''',
               style_width = '''', style_height = ''''\<rparr>\<rparr>"

definition mock_host :: "nat \<Rightarrow> nat \<Rightarrow> WebGLRenderingContext option \<Rightarrow> Host" where
  "mock_host w h ctx =
     \<lparr>createElement = (\<lambda>tag. mock_canvas w h),
      getContext = (\<lambda>name. if name = ''webgl'' then ctx else None),
      getElementById = (\<lambda>name. if name = ''fingerprint'' then Some (Element 6) else None)\<rparr>"

text \<open>A host that offers only other context kinds than the one asked for.\<close>

definition mock_host_webgl2_only :: Host where
  "mock_host_webgl2_only =
     \<lparr>createElement = (\<lambda>tag. mock_canvas 1 1),
      getContext = (\<lambda>name. if name = ''webgl2'' \<or> name = ''experimental-webgl''
                            then Some mock_gl else None),
      getElementById = (\<lambda>name. None)\<rparr>"

definition mock_gl_no_shader :: WebGLRenderingContext where
  "mock_gl_no_shader = mock_gl\<lparr>gl_createShader := (\<lambda>t. None)\<rparr>"

definition mock_gl_bad_fragment :: WebGLRenderingContext where
  "mock_gl_bad_fragment =
     mock_gl\<lparr>gl_getShaderParameter := (\<lambda>sh pname. sh = WebGLShader 1),
             gl_getShaderInfoLog := (\<lambda>sh. Some ''ERROR: 0:2'')\<rparr>"

definition mock_gl_no_link :: WebGLRenderingContext where
  "mock_gl_no_link =
     mock_gl\<lparr>gl_getProgramParameter := (\<lambda>p pname. False),
             gl_getProgramInfoLog := (\<lambda>p. None)\<rparr>"


text \<open>The same pixels from a context that differs in every handle and location.\<close>

definition mock_gl_other :: WebGLRenderingContext where
  "mock_gl_other =
     \<lparr>gl_createShader = (\<lambda>t. Some (WebGLShader (if t = VERTEX_SHADER then 10 else 20))),
      gl_getShaderParameter = (\<lambda>sh pname. True),
      gl_getShaderInfoLog = (\<lambda>sh. None),
      gl_createProgram = Some (WebGLProgram 30),
      gl_getProgramParameter = (\<lambda>p pname. True),
      gl_getProgramInfoLog = (\<lambda>p. None),
      gl_createBuffer = None,
      gl_getAttribLocation = (\<lambda>p name. - 1),
      gl_getUniformLocation = (\<lambda>p name. None),
      gl_readPixels = (\<lambda>x y w h format type buf. [])\<rparr>"

section \<open>Facts about the digest and the encoding\<close>

lemma length_bytes_of_u32: "length (bytes_of_u32 w) = 4"
  by (simp add: bytes_of_u32_def)

lemma length_bytes_of_state: "length (bytes_of_state s) = 32"
  by (simp add: bytes_of_state_def length_bytes_of_u32 split: prod.splits)

lemma length_sha256: "length (sha256 m) = 32"
  by (simp add: sha256_def Let_def length_bytes_of_state)

lemma sha256_zero4:
  "sha256 [0, 0, 0, 0] =
     [0xdf, 0x3f, 0x61, 0x98, 0x04, 0xa9, 0x2f, 0xdb, 0x40, 0x57, 0x19, 0x2d, 0xc4, 0x3d, 0xd7, 0x48,
      0xea, 0x77, 0x8a, 0xdc, 0x52, 0xbc, 0x49, 0x8c, 0xe8, 0x05, 0x24, 0xc0, 0x14, 0xb8, 0x11, 0x19]"
  by code_simp

text \<open>The standard's own example, the digest of \<open>abc\<close>, and a few of its constants.\<close>

lemma sha256_abc:
  "sha256 [0x61, 0x62, 0x63] =
     [0xba, 0x78, 0x16, 0xbf, 0x8f, 0x01, 0xcf, 0xea, 0x41, 0x41, 0x40, 0xde, 0x5d, 0xae, 0x22, 0x23,
      0xb0, 0x03, 0x61, 0xa3, 0x96, 0x17, 0x7a, 0x9c, 0xb4, 0x10, 0xff, 0x61, 0xf2, 0x00, 0x15, 0xad]"
  by code_simp

lemma sha256_constants:
  "length K256 = 64" "hd K256 = 0x428a2f98" "last K256 = 0xc67178f2"
  "fst H0 = 0x6a09e667" "snd (snd (snd (snd (snd (snd (snd H0)))))) = 0x5be0cd19"
  by code_simp+

lemma hex_encode_digest_zero4:
  "hex_encode
     [0xdf, 0x3f, 0x61, 0x98, 0x04, 0xa9, 0x2f, 0xdb, 0x40, 0x57, 0x19, 0x2d, 0xc4, 0x3d, 0xd7, 0x48,
      0xea, 0x77, 0x8a, 0xdc, 0x52, 0xbc, 0x49, 0x8c, 0xe8, 0x05, 0x24, 0xc0, 0x14, 0xb8, 0x11, 0x19]
   = ''df3f619804a92fdb4057192dc43dd748ea778adc52bc498ce80524c014b81119''"
  by code_simp

lemma join_empty: "join [] xs = concat xs"
  by (induction "[] :: string" xs rule: join.induct) simp_all

lemma hexDigit_table: "list_all (\<lambda>d. hexDigit d = hex_char d) [0..<16]"
  by code_simp

lemma hexDigit_hex_char: "d < 16 \<Longrightarrow> hexDigit d = hex_char d"
  using hexDigit_table by (simp add: list_all_iff)

lemma hexDigit_0: "hexDigit 0 = CHR ''0''"
  by (simp add: hexDigit_def)

lemma toString16_digit: "n < 16 \<Longrightarrow> toString16 n = [hexDigit n]"
  by (subst toString16.simps) simp

lemma toString16_two:
  "16 \<le> n \<Longrightarrow> n < 256 \<Longrightarrow> toString16 n = [hexDigit (n div 16), hexDigit (n mod 16)]"
  by (subst toString16.simps) (simp add: toString16_digit)

lemma toString16_byte:
  assumes "n < 256"
  shows "padStart 2 ''0'' (toString16 n) = [hexDigit (n div 16), hexDigit (n mod 16)]"
proof (cases "n < 16")
  case True
  then show ?thesis by (simp add: padStart_def hexDigit_0 toString16_digit)
next
  case False
  with assms show ?thesis by (simp add: padStart_def toString16_two)
qed

lemma hexDigit_lower: "d < 16 \<Longrightarrow> hexDigit d \<in> set ''0123456789abcdef''"
  unfolding hexDigit_def by (rule nth_mem) simp

lemma unat_byte_less: "unat (b :: byte) < 256"
  using unsigned_less [of b, where ?'a = nat] by simp

lemma hexpair_byte:
  "padStart 2 ''0'' (toString16 (unat (b :: byte))) =
     [hex_char (unat b div 16), hex_char (unat b mod 16)]"
proof -
  have "unat b div 16 < 16" using unat_byte_less [of b] by simp
  then show ?thesis
    by (simp add: toString16_byte [OF unat_byte_less] hexDigit_hex_char)
qed

lemma hashHex_hex_encode:
  "join '''' (map (\<lambda>b. padStart 2 ''0'' (toString16 b)) (map unat bs)) = hex_encode bs"
  by (simp add: join_empty hex_encode_def hexpair_byte comp_def)

lemma length_hex_encode: "length (hex_encode bs) = 2 * length bs"
  by (induction bs) (simp_all add: hex_encode_def)

lemma lowercase_hex_encode: "lowercase_hex (hex_encode bs)"
proof -
  have "hex_char (unat b div 16) \<in> set ''0123456789abcdef''
      \<and> hex_char (unat b mod 16) \<in> set ''0123456789abcdef''" for b :: byte
  proof -
    have "unat b div 16 < 16" using unat_byte_less [of b] by simp
    then show ?thesis
      using hexDigit_lower [of "unat b div 16"] hexDigit_lower [of "unat b mod 16"]
      by (simp add: hexDigit_hex_char)
  qed
  then show ?thesis
    unfolding lowercase_hex_def hex_encode_def
    by (induction bs) simp_all
qed

lemma length_writeInto: "length (writeInto buf written) = length buf"
  by (simp add: writeInto_def)

lemma length_readback:
  "length (readback host gl) =
     width (createElement host ''canvas'') * height (createElement host ''canvas'') * 4"
  by (simp add: readback_def Let_def readPixelsInto_def length_writeInto)

section \<open>The shader helpers\<close>

lemma createShader_result:
  "snd (createShader gl type source) = (if compiles gl type then gl_createShader gl type else None)"
  by (simp add: createShader_def compiles_def split: option.splits)

lemma createShader_no_ReadPixels: "\<not> list_ex is_ReadPixels (fst (createShader gl type source))"
  by (simp add: createShader_def split: option.splits)

lemma createShader_no_Digest: "\<not> list_ex is_Digest (fst (createShader gl type source))"
  by (simp add: createShader_def split: option.splits)


lemma createShader_no_sink: "\<not> list_ex is_sink (fst (createShader gl type source))"
  by (simp add: createShader_def split: option.splits)

lemma createShaderProgram_result:
  "snd (createShaderProgram gl vertexSource fragmentSource) =
     (if compiles gl VERTEX_SHADER \<and> compiles gl FRAGMENT_SHADER \<and> links gl
      then gl_createProgram gl else None)"
  using createShader_result [of gl VERTEX_SHADER vertexSource]
        createShader_result [of gl FRAGMENT_SHADER fragmentSource]
  by (auto simp: createShaderProgram_def Let_def links_def compiles_def
           split: prod.splits option.splits)

lemma createShaderProgram_no_ReadPixels:
  "\<not> list_ex is_ReadPixels (fst (createShaderProgram gl vertexSource fragmentSource))"
  using createShader_no_ReadPixels [of gl VERTEX_SHADER vertexSource]
        createShader_no_ReadPixels [of gl FRAGMENT_SHADER fragmentSource]
  by (auto simp: createShaderProgram_def Let_def split: prod.splits option.splits)

lemma createShaderProgram_no_Digest:
  "\<not> list_ex is_Digest (fst (createShaderProgram gl vertexSource fragmentSource))"
  using createShader_no_Digest [of gl VERTEX_SHADER vertexSource]
        createShader_no_Digest [of gl FRAGMENT_SHADER fragmentSource]
  by (auto simp: createShaderProgram_def Let_def split: prod.splits option.splits)

lemma createShaderProgram_no_sink:
  "\<not> list_ex is_sink (fst (createShaderProgram gl vertexSource fragmentSource))"
  using createShader_no_sink [of gl VERTEX_SHADER vertexSource]
        createShader_no_sink [of gl FRAGMENT_SHADER fragmentSource]
  by (auto simp: createShaderProgram_def Let_def split: prod.splits option.splits)


section \<open>The three ways a run ends\<close>

lemma cdf_no_context:
  assumes "getContext host ''webgl'' = None"
  shows "createDeviceFingerprint host =
           \<lparr>calls = [CreateElement ''canvas'', GetContext ''webgl''],
            canvas = createElement host ''canvas'',
            result = Inl (Error ''WebGL is not supported'')\<rparr>"
  using assms by (simp add: createDeviceFingerprint_def)

lemma cdf_pipeline_failed:
  assumes "getContext host ''webgl'' = Some gl"
    and "snd (createShaderProgram gl vertexShaderSource fragmentShaderSource) = None"
  shows "calls (createDeviceFingerprint host) =
           [CreateElement ''canvas'', GetContext ''webgl'']
           @ fst (createShaderProgram gl vertexShaderSource fragmentShaderSource)"
    and "result (createDeviceFingerprint host) =
           Inl (Error ''Shader program could not be initialized'')"
  using assms
  by (auto simp: createDeviceFingerprint_def Let_def split: prod.splits option.splits)

lemma cdf_success:
  assumes "getContext host ''webgl'' = Some gl"
    and "snd (createShaderProgram gl vertexShaderSource fragmentShaderSource) = Some p"
  shows "result (createDeviceFingerprint host) = Inr (hex_encode (sha256 (readback host gl)))"
    and "calls (createDeviceFingerprint host) =
           ([CreateElement ''canvas'', GetContext ''webgl'']
            @ fst (createShaderProgram gl vertexShaderSource fragmentShaderSource)
            @ [UseProgram p,
               CreateBuffer,
               BindBuffer ARRAY_BUFFER (gl_createBuffer gl),
               BufferData ARRAY_BUFFER [0, 1, - 1, - 1, 1, - 1] STATIC_DRAW,
               GetAttribLocation p ''aVertexPosition'',
               EnableVertexAttribArray (gl_getAttribLocation gl p ''aVertexPosition''),
               VertexAttribPointer (gl_getAttribLocation gl p ''aVertexPosition'') 2 FLOAT False 0 0,
               GetUniformLocation p ''uColor'',
               Uniform4f (gl_getUniformLocation gl p ''uColor'') 1 1 0 1,
               ClearColor 0 0 0 1,
               Clear COLOR_BUFFER_BIT,
               DrawArrays TRIANGLES 0 3])
           @ [ReadPixels 0 0 (width (createElement host ''canvas''))
                (height (createElement host ''canvas'')) RGBA UNSIGNED_BYTE
                (replicate (width (createElement host ''canvas'')
                            * height (createElement host ''canvas'') * 4) 0),
              Digest ''SHA-256'' (readback host gl)]"
  using assms
  by (auto simp: createDeviceFingerprint_def Let_def hashHex_hex_encode readback_def
            split: prod.splits option.splits simp del: map_map)

lemma cdf_success_inv:
  assumes "result (createDeviceFingerprint host) = Inr s"
  obtains gl p where "getContext host ''webgl'' = Some gl"
    and "snd (createShaderProgram gl vertexShaderSource fragmentShaderSource) = Some p"
  using assms
  by (auto simp: createDeviceFingerprint_def Let_def split: option.splits prod.splits)

lemma cdf_canvas:
  assumes "getContext host ''webgl'' = Some gl"
  shows "canvas (createDeviceFingerprint host) =
           (createElement host ''canvas'')
             \<lparr>style := (style (createElement host ''canvas''))
                \<lparr>style_position := ''absolute'', style_top := ''-9999px'',
                 style_width := ''1px'', style_height := ''1px''\<rparr>\<rparr>"
  using assms
  by (simp add: createDeviceFingerprint_def Let_def split: option.splits prod.splits)

section \<open>The mock hosts, evaluated\<close>

lemma mock_compiles: "compiles mock_gl VERTEX_SHADER" "compiles mock_gl FRAGMENT_SHADER"
  "links mock_gl"
  by (simp_all add: compiles_def links_def mock_gl_def)

lemma mock_program:
  "snd (createShaderProgram mock_gl vertexShaderSource fragmentShaderSource) = Some (WebGLProgram 3)"
  by (simp add: createShaderProgram_result mock_compiles) (simp add: mock_gl_def)

lemma mock_readback: "readback (mock_host 1 1 (Some mock_gl)) mock_gl = [0, 0, 0, 0]"
  by (simp add: readback_def readPixelsInto_def writeInto_def mock_host_def mock_canvas_def
                mock_gl_def numeral_eq_Suc)

lemma mock_context: "getContext (mock_host w h ctx) ''webgl'' = ctx"
  by (simp add: mock_host_def)

lemma mock_result:
  "result (createDeviceFingerprint (mock_host 1 1 (Some mock_gl))) =
     Inr ''df3f619804a92fdb4057192dc43dd748ea778adc52bc498ce80524c014b81119''"
  using cdf_success(1) [OF mock_context mock_program, of 1 1]
  by (simp only: mock_readback sha256_zero4 hex_encode_digest_zero4)

lemma fingerprint_digest:
  assumes "getContext host ''webgl'' = Some gl"
    and "result (createDeviceFingerprint host) = Inr s"
  shows "s = hex_encode (sha256 (readback host gl))"
proof -
  from assms(2) obtain gl' p where ctx: "getContext host ''webgl'' = Some gl'"
    and prog: "snd (createShaderProgram gl' vertexShaderSource fragmentShaderSource) = Some p"
    by (rule cdf_success_inv)
  from ctx assms(1) have "gl' = gl" by simp
  with cdf_success(1) [OF ctx prog] assms(2) show ?thesis by simp
qed

lemma mock_other_program:
  "snd (createShaderProgram mock_gl_other vertexShaderSource fragmentShaderSource)
     = Some (WebGLProgram 30)"
  by (simp add: createShaderProgram_result compiles_def links_def mock_gl_other_def)

lemma mock_other_readback:
  "readback (mock_host 1 1 (Some mock_gl_other)) mock_gl_other = [0, 0, 0, 0]"
  by (simp add: readback_def readPixelsInto_def writeInto_def mock_host_def mock_canvas_def
                mock_gl_other_def numeral_eq_Suc)

lemma mock_other_result:
  "result (createDeviceFingerprint (mock_host 1 1 (Some mock_gl_other))) =
     Inr (hex_encode (sha256 [0, 0, 0, 0]))"
  using cdf_success(1) [OF mock_context mock_other_program, of 1 1]
  by (simp only: mock_other_readback)

section \<open>The fingerprint\<close>

text \<open>
  C1.  Whenever \<open>createDeviceFingerprint\<close> resolves, the string it resolves with is the
  lowercase hexadecimal encoding of the SHA-256 digest of the pixel buffer after the read:
  the digest has 32 bytes, every byte gives its two nibbles as two characters of
  \<open>0\<close>..\<open>9\<close>, \<open>a\<close>..\<open>f\<close>, in buffer order with nothing in between, so the string has 64
  characters, all of them lowercase hexadecimal digits.
\<close>

theorem fingerprint_is_hex_of_sha256:
  assumes "result (createDeviceFingerprint host) = Inr s"
  shows "\<exists>gl. getContext host ''webgl'' = Some gl
           \<and> s = hex_encode (sha256 (readback host gl))
           \<and> length (sha256 (readback host gl)) = 32
           \<and> length s = 64
           \<and> lowercase_hex s"
proof -
  from assms obtain gl p where ctx: "getContext host ''webgl'' = Some gl"
    and prog: "snd (createShaderProgram gl vertexShaderSource fragmentShaderSource) = Some p"
    by (rule cdf_success_inv)
  from cdf_success(1) [OF ctx prog] assms
  have s: "s = hex_encode (sha256 (readback host gl))" by simp
  have "length s = 64" by (simp add: s length_hex_encode length_sha256)
  moreover have "lowercase_hex s" by (simp add: s lowercase_hex_encode)
  ultimately show ?thesis using ctx s length_sha256 by blast
qed

theorem fingerprint_is_hex_of_sha256_witness:
  "result (createDeviceFingerprint (mock_host 1 1 (Some mock_gl))) =
     Inr ''df3f619804a92fdb4057192dc43dd748ea778adc52bc498ce80524c014b81119''
   \<and> length ''df3f619804a92fdb4057192dc43dd748ea778adc52bc498ce80524c014b81119'' = 64
   \<and> lowercase_hex ''df3f619804a92fdb4057192dc43dd748ea778adc52bc498ce80524c014b81119''"
proof -
  from fingerprint_is_hex_of_sha256 [OF mock_result]
  have "length ''df3f619804a92fdb4057192dc43dd748ea778adc52bc498ce80524c014b81119'' = 64"
    and "lowercase_hex ''df3f619804a92fdb4057192dc43dd748ea778adc52bc498ce80524c014b81119''"
    by blast+
  with mock_result show ?thesis by blast
qed

text \<open>
  C2.  On a 1x1 canvas, with a context on which both stages compile, a program is created
  and links, and the read leaves four zero bytes in the buffer, the fingerprint is the
  fixed 64-character value of the SHA-256 digest of four zero bytes.
\<close>

theorem zero_pixel_fingerprint:
  assumes "getContext host ''webgl'' = Some gl"
    and "width (createElement host ''canvas'') = 1"
    and "height (createElement host ''canvas'') = 1"
    and "compiles gl VERTEX_SHADER" and "compiles gl FRAGMENT_SHADER"
    and "gl_createProgram gl \<noteq> None" and "links gl"
    and "readPixelsInto gl 0 0 1 1 RGBA UNSIGNED_BYTE [0, 0, 0, 0] = [0, 0, 0, 0]"
  shows "result (createDeviceFingerprint host) =
           Inr ''df3f619804a92fdb4057192dc43dd748ea778adc52bc498ce80524c014b81119''"
proof -
  from assms(6) obtain p where "gl_createProgram gl = Some p" by blast
  with assms(4,5,7)
  have prog: "snd (createShaderProgram gl vertexShaderSource fragmentShaderSource) = Some p"
    by (simp add: createShaderProgram_result)
  have "readback host gl = [0, 0, 0, 0]"
    using assms(2,3,8) by (simp add: readback_def numeral_eq_Suc)
  with cdf_success(1) [OF assms(1) prog] show ?thesis
    by (simp only: sha256_zero4 hex_encode_digest_zero4)
qed

theorem zero_pixel_fingerprint_witness:
  "getContext (mock_host 1 1 (Some mock_gl)) ''webgl'' = Some mock_gl
   \<and> width (createElement (mock_host 1 1 (Some mock_gl)) ''canvas'') = 1
   \<and> height (createElement (mock_host 1 1 (Some mock_gl)) ''canvas'') = 1
   \<and> compiles mock_gl VERTEX_SHADER \<and> compiles mock_gl FRAGMENT_SHADER
   \<and> gl_createProgram mock_gl \<noteq> None \<and> links mock_gl
   \<and> readPixelsInto mock_gl 0 0 1 1 RGBA UNSIGNED_BYTE [0, 0, 0, 0] = [0, 0, 0, 0]
   \<and> result (createDeviceFingerprint (mock_host 1 1 (Some mock_gl))) =
       Inr ''df3f619804a92fdb4057192dc43dd748ea778adc52bc498ce80524c014b81119''"
proof -
  have a: "getContext (mock_host 1 1 (Some mock_gl)) ''webgl'' = Some mock_gl"
    by (rule mock_context)
  have b: "width (createElement (mock_host 1 1 (Some mock_gl)) ''canvas'') = 1"
    and c: "height (createElement (mock_host 1 1 (Some mock_gl)) ''canvas'') = 1"
    by (simp_all add: mock_host_def mock_canvas_def)
  have d: "gl_createProgram mock_gl \<noteq> None" by (simp add: mock_gl_def)
  have e: "readPixelsInto mock_gl 0 0 1 1 RGBA UNSIGNED_BYTE [0, 0, 0, 0] = [0, 0, 0, 0]"
    by (simp add: readPixelsInto_def writeInto_def mock_gl_def numeral_eq_Suc)
  from zero_pixel_fingerprint [OF a b c mock_compiles(1) mock_compiles(2) d mock_compiles(3) e]
  show ?thesis using a b c d e mock_compiles by blast
qed

text \<open>
  C3.  Two runs, on hosts that may differ in everything else (handles, locations, logs),
  that both resolve and in which the read leaves the same bytes in the pixel buffer,
  resolve with the same string.
\<close>

theorem same_readback_same_fingerprint:
  assumes "getContext host1 ''webgl'' = Some gl1"
    and "getContext host2 ''webgl'' = Some gl2"
    and "result (createDeviceFingerprint host1) = Inr s1"
    and "result (createDeviceFingerprint host2) = Inr s2"
    and "readback host1 gl1 = readback host2 gl2"
  shows "s1 = s2"
proof -
  from fingerprint_digest [OF assms(1) assms(3)] fingerprint_digest [OF assms(2) assms(4)]
  show ?thesis by (simp add: assms(5))
qed

theorem same_readback_same_fingerprint_witness:
  "getContext (mock_host 1 1 (Some mock_gl)) ''webgl'' = Some mock_gl
   \<and> getContext (mock_host 1 1 (Some mock_gl_other)) ''webgl'' = Some mock_gl_other
   \<and> result (createDeviceFingerprint (mock_host 1 1 (Some mock_gl))) =
       Inr ''df3f619804a92fdb4057192dc43dd748ea778adc52bc498ce80524c014b81119''
   \<and> result (createDeviceFingerprint (mock_host 1 1 (Some mock_gl_other))) =
       Inr (hex_encode (sha256 [0, 0, 0, 0]))
   \<and> readback (mock_host 1 1 (Some mock_gl)) mock_gl
       = readback (mock_host 1 1 (Some mock_gl_other)) mock_gl_other
   \<and> ''df3f619804a92fdb4057192dc43dd748ea778adc52bc498ce80524c014b81119''
       = hex_encode (sha256 [0, 0, 0, 0])"
proof -
  have r: "readback (mock_host 1 1 (Some mock_gl)) mock_gl
             = readback (mock_host 1 1 (Some mock_gl_other)) mock_gl_other"
    by (simp only: mock_readback mock_other_readback)
  from same_readback_same_fingerprint [OF mock_context mock_context mock_result mock_other_result r]
  show ?thesis using mock_context mock_result mock_other_result r by blast
qed

section \<open>The two fatal paths\<close>

text \<open>
  C4.  When the host has no \<open>webgl\<close> context, the promise is rejected with the error
  ``WebGL is not supported'', and the only calls made are the creation of the canvas and
  the one request for the \<open>webgl\<close> context: no other context kind is asked for, and no
  shader, draw, read or digest call is made.
\<close>

theorem no_context_rejects:
  assumes "getContext host ''webgl'' = None"
  shows "result (createDeviceFingerprint host) = Inl (Error ''WebGL is not supported'')
         \<and> calls (createDeviceFingerprint host) = [CreateElement ''canvas'', GetContext ''webgl'']"
  by (simp add: cdf_no_context [OF assms])

theorem no_context_rejects_witness:
  "getContext mock_host_webgl2_only ''webgl'' = None
   \<and> getContext mock_host_webgl2_only ''webgl2'' = Some mock_gl
   \<and> result (createDeviceFingerprint mock_host_webgl2_only)
       = Inl (Error ''WebGL is not supported'')
   \<and> calls (createDeviceFingerprint mock_host_webgl2_only)
       = [CreateElement ''canvas'', GetContext ''webgl'']"
proof -
  have a: "getContext mock_host_webgl2_only ''webgl'' = None"
    and b: "getContext mock_host_webgl2_only ''webgl2'' = Some mock_gl"
    by (simp_all add: mock_host_webgl2_only_def)
  from no_context_rejects [OF a] a b show ?thesis by blast
qed

text \<open>
  C5.  With a context at hand, when the vertex stage or the fragment stage does not
  compile, or the program does not link, the promise is rejected with the error ``Shader
  program could not be initialized'', the same value in all three cases, and the run
  makes no read and no digest call.
\<close>

theorem pipeline_failure_rejects:
  assumes "getContext host ''webgl'' = Some gl"
    and "\<not> compiles gl VERTEX_SHADER \<or> \<not> compiles gl FRAGMENT_SHADER \<or> \<not> links gl"
  shows "result (createDeviceFingerprint host)
           = Inl (Error ''Shader program could not be initialized'')
         \<and> \<not> list_ex is_ReadPixels (calls (createDeviceFingerprint host))
         \<and> \<not> list_ex is_Digest (calls (createDeviceFingerprint host))"
proof -
  from assms(2)
  have none: "snd (createShaderProgram gl vertexShaderSource fragmentShaderSource) = None"
    by (auto simp: createShaderProgram_result)
  show ?thesis
    using cdf_pipeline_failed [OF assms(1) none]
          createShaderProgram_no_ReadPixels [of gl vertexShaderSource fragmentShaderSource]
          createShaderProgram_no_Digest [of gl vertexShaderSource fragmentShaderSource]
    by simp
qed

theorem pipeline_failure_rejects_witness:
  "getContext (mock_host 1 1 (Some mock_gl_bad_fragment)) ''webgl'' = Some mock_gl_bad_fragment
   \<and> compiles mock_gl_bad_fragment VERTEX_SHADER
   \<and> \<not> compiles mock_gl_bad_fragment FRAGMENT_SHADER
   \<and> result (createDeviceFingerprint (mock_host 1 1 (Some mock_gl_bad_fragment)))
       = Inl (Error ''Shader program could not be initialized'')
   \<and> getContext (mock_host 1 1 (Some mock_gl_no_link)) ''webgl'' = Some mock_gl_no_link
   \<and> \<not> links mock_gl_no_link
   \<and> result (createDeviceFingerprint (mock_host 1 1 (Some mock_gl_no_link)))
       = Inl (Error ''Shader program could not be initialized'')
   \<and> \<not> list_ex is_ReadPixels
         (calls (createDeviceFingerprint (mock_host 1 1 (Some mock_gl_no_link))))
   \<and> \<not> list_ex is_Digest
         (calls (createDeviceFingerprint (mock_host 1 1 (Some mock_gl_no_link))))"
proof -
  have a: "compiles mock_gl_bad_fragment VERTEX_SHADER"
    and b: "\<not> compiles mock_gl_bad_fragment FRAGMENT_SHADER"
    by (simp_all add: compiles_def mock_gl_bad_fragment_def mock_gl_def)
  have c: "\<not> links mock_gl_no_link"
    by (simp add: links_def mock_gl_no_link_def mock_gl_def)
  from b have b': "\<not> compiles mock_gl_bad_fragment VERTEX_SHADER
      \<or> \<not> compiles mock_gl_bad_fragment FRAGMENT_SHADER \<or> \<not> links mock_gl_bad_fragment"
    by blast
  from c have c': "\<not> compiles mock_gl_no_link VERTEX_SHADER
      \<or> \<not> compiles mock_gl_no_link FRAGMENT_SHADER \<or> \<not> links mock_gl_no_link"
    by blast
  from pipeline_failure_rejects [OF mock_context b'] pipeline_failure_rejects [OF mock_context c']
  show ?thesis using a b c mock_context by blast
qed

section \<open>Compiling and linking\<close>

text \<open>
  C6, as the code has it.  \<open>createShader\<close> first asks the host for a shader object.  When
  the host gives none, it logs ``Error creating shader.'' and returns \<open>null\<close>, and the
  source is neither submitted nor compiled.  When the host gives one, it submits the
  source, compiles, and reads the compile status, in this order; if the status is false it
  reads that shader's info log, logs it behind a fixed prefix, deletes the shader and
  returns \<open>null\<close>; otherwise it returns the shader.  It compiles at most once.
  \<open>createShaderProgram\<close> runs \<open>createShader\<close> for the vertex and then for the fragment
  stage; when both return a shader it creates a program, attaches both, links once and
  reads the link status, and on a false status logs the program's info log and returns
  \<open>null\<close>; when a stage returned \<open>null\<close> it returns \<open>null\<close> and attaches and links nothing.
\<close>

theorem shader_helpers_protocol:
  "(gl_createShader gl type = None \<longrightarrow>
      createShader gl type source =
        ([CreateShader type, ConsoleError ''Error creating shader.''], None))
   \<and> (gl_createShader gl type = Some sh \<longrightarrow>
        take 4 (fst (createShader gl type source)) =
          [CreateShader type, ShaderSource sh source, CompileShader sh,
           GetShaderParameter sh COMPILE_STATUS])
   \<and> (gl_createShader gl type = Some sh \<and> gl_getShaderParameter gl sh COMPILE_STATUS \<longrightarrow>
        drop 4 (fst (createShader gl type source)) = []
        \<and> snd (createShader gl type source) = Some sh)
   \<and> (gl_createShader gl type = Some sh \<and> \<not> gl_getShaderParameter gl sh COMPILE_STATUS \<longrightarrow>
        drop 4 (fst (createShader gl type source)) =
          [GetShaderInfoLog sh,
           ConsoleError (plus_str ''An error occurred compiling the shaders: ''
                           (gl_getShaderInfoLog gl sh)),
           DeleteShader sh]
        \<and> snd (createShader gl type source) = None)
   \<and> length (filter is_CompileShader (fst (createShader gl type source))) \<le> 1
   \<and> (createShader gl VERTEX_SHADER vertexSource = (tv, Some vs)
        \<and> createShader gl FRAGMENT_SHADER fragmentSource = (tf, Some fs) \<longrightarrow>
        createShaderProgram gl vertexSource fragmentSource =
          (tv @ tf
           @ [CreateProgram, AttachShader (gl_createProgram gl) vs,
              AttachShader (gl_createProgram gl) fs, LinkProgram (gl_createProgram gl),
              GetProgramParameter (gl_createProgram gl) LINK_STATUS]
           @ (if links gl then []
              else [GetProgramInfoLog (gl_createProgram gl),
                    ConsoleError (plus_str ''Unable to initialize the shader program: ''
                                    (gl_getProgramInfoLog gl (gl_createProgram gl)))]),
           if links gl then gl_createProgram gl else None))
   \<and> (snd (createShader gl VERTEX_SHADER vertexSource) = None
        \<or> snd (createShader gl FRAGMENT_SHADER fragmentSource) = None \<longrightarrow>
        createShaderProgram gl vertexSource fragmentSource =
          (fst (createShader gl VERTEX_SHADER vertexSource)
           @ fst (createShader gl FRAGMENT_SHADER fragmentSource), None))
   \<and> length (filter is_LinkProgram (fst (createShaderProgram gl vertexSource fragmentSource)))
        \<le> 1
   \<and> length (filter is_CompileShader (fst (createShaderProgram gl vertexSource fragmentSource)))
        \<le> 2"
proof -
  have one: "length (filter is_CompileShader (fst (createShader gl t src))) \<le> 1"
    and no_link: "filter is_LinkProgram (fst (createShader gl t src)) = []" for t src
    by (simp_all add: createShader_def split: option.splits)
  have prog_ok: "createShaderProgram gl vertexSource fragmentSource =
          (tv @ tf
           @ [CreateProgram, AttachShader (gl_createProgram gl) vs,
              AttachShader (gl_createProgram gl) fs, LinkProgram (gl_createProgram gl),
              GetProgramParameter (gl_createProgram gl) LINK_STATUS]
           @ (if links gl then []
              else [GetProgramInfoLog (gl_createProgram gl),
                    ConsoleError (plus_str ''Unable to initialize the shader program: ''
                                    (gl_getProgramInfoLog gl (gl_createProgram gl)))]),
           if links gl then gl_createProgram gl else None)"
    if "createShader gl VERTEX_SHADER vertexSource = (tv, Some vs)"
      and "createShader gl FRAGMENT_SHADER fragmentSource = (tf, Some fs)"
    using that by (simp add: createShaderProgram_def Let_def links_def)
  have prog_none: "createShaderProgram gl vertexSource fragmentSource =
          (fst (createShader gl VERTEX_SHADER vertexSource)
           @ fst (createShader gl FRAGMENT_SHADER fragmentSource), None)"
    if "snd (createShader gl VERTEX_SHADER vertexSource) = None
        \<or> snd (createShader gl FRAGMENT_SHADER fragmentSource) = None"
    using that
    by (auto simp: createShaderProgram_def Let_def split: prod.splits option.splits)
  have links_once:
    "length (filter is_LinkProgram (fst (createShaderProgram gl vertexSource fragmentSource))) \<le> 1"
    using no_link [of VERTEX_SHADER vertexSource] no_link [of FRAGMENT_SHADER fragmentSource]
    by (auto simp: createShaderProgram_def Let_def split: prod.splits option.splits)
  have compiles_twice:
    "length (filter is_CompileShader (fst (createShaderProgram gl vertexSource fragmentSource))) \<le> 2"
    using one [of VERTEX_SHADER vertexSource] one [of FRAGMENT_SHADER fragmentSource]
    by (auto simp: createShaderProgram_def Let_def split: prod.splits option.splits)
  show ?thesis
    using one [of type source] prog_ok prog_none links_once compiles_twice
    by (auto simp: createShader_def)
qed

theorem shader_helpers_protocol_witness:
  "gl_createShader mock_gl_no_shader VERTEX_SHADER = None
   \<and> createShader mock_gl_no_shader VERTEX_SHADER vertexShaderSource =
       ([CreateShader VERTEX_SHADER, ConsoleError ''Error creating shader.''], None)
   \<and> gl_createShader mock_gl FRAGMENT_SHADER = Some (WebGLShader 2)
   \<and> gl_getShaderParameter mock_gl (WebGLShader 2) COMPILE_STATUS
   \<and> take 4 (fst (createShader mock_gl FRAGMENT_SHADER fragmentShaderSource)) =
       [CreateShader FRAGMENT_SHADER, ShaderSource (WebGLShader 2) fragmentShaderSource,
        CompileShader (WebGLShader 2), GetShaderParameter (WebGLShader 2) COMPILE_STATUS]
   \<and> drop 4 (fst (createShader mock_gl FRAGMENT_SHADER fragmentShaderSource)) = []
   \<and> snd (createShader mock_gl FRAGMENT_SHADER fragmentShaderSource) = Some (WebGLShader 2)
   \<and> gl_createShader mock_gl_bad_fragment FRAGMENT_SHADER = Some (WebGLShader 2)
   \<and> \<not> gl_getShaderParameter mock_gl_bad_fragment (WebGLShader 2) COMPILE_STATUS
   \<and> drop 4 (fst (createShader mock_gl_bad_fragment FRAGMENT_SHADER fragmentShaderSource)) =
       [GetShaderInfoLog (WebGLShader 2),
        ConsoleError ''An error occurred compiling the shaders: ERROR: 0:2'',
        DeleteShader (WebGLShader 2)]
   \<and> snd (createShader mock_gl_bad_fragment FRAGMENT_SHADER fragmentShaderSource) = None
   \<and> createShaderProgram mock_gl_no_link vertexShaderSource fragmentShaderSource =
       ([CreateShader VERTEX_SHADER, ShaderSource (WebGLShader 1) vertexShaderSource,
         CompileShader (WebGLShader 1), GetShaderParameter (WebGLShader 1) COMPILE_STATUS,
         CreateShader FRAGMENT_SHADER, ShaderSource (WebGLShader 2) fragmentShaderSource,
         CompileShader (WebGLShader 2), GetShaderParameter (WebGLShader 2) COMPILE_STATUS,
         CreateProgram, AttachShader (Some (WebGLProgram 3)) (WebGLShader 1),
         AttachShader (Some (WebGLProgram 3)) (WebGLShader 2),
         LinkProgram (Some (WebGLProgram 3)),
         GetProgramParameter (Some (WebGLProgram 3)) LINK_STATUS,
         GetProgramInfoLog (Some (WebGLProgram 3)),
         ConsoleError ''Unable to initialize the shader program: null''], None)
   \<and> createShaderProgram mock_gl_bad_fragment vertexShaderSource fragmentShaderSource =
       ([CreateShader VERTEX_SHADER, ShaderSource (WebGLShader 1) vertexShaderSource,
         CompileShader (WebGLShader 1), GetShaderParameter (WebGLShader 1) COMPILE_STATUS,
         CreateShader FRAGMENT_SHADER, ShaderSource (WebGLShader 2) fragmentShaderSource,
         CompileShader (WebGLShader 2), GetShaderParameter (WebGLShader 2) COMPILE_STATUS,
         GetShaderInfoLog (WebGLShader 2),
         ConsoleError ''An error occurred compiling the shaders: ERROR: 0:2'',
         DeleteShader (WebGLShader 2)], None)"
proof -
  have v: "createShader mock_gl_no_link VERTEX_SHADER vertexShaderSource =
             ([CreateShader VERTEX_SHADER, ShaderSource (WebGLShader 1) vertexShaderSource,
               CompileShader (WebGLShader 1), GetShaderParameter (WebGLShader 1) COMPILE_STATUS],
              Some (WebGLShader 1))"
    and f: "createShader mock_gl_no_link FRAGMENT_SHADER fragmentShaderSource =
             ([CreateShader FRAGMENT_SHADER, ShaderSource (WebGLShader 2) fragmentShaderSource,
               CompileShader (WebGLShader 2), GetShaderParameter (WebGLShader 2) COMPILE_STATUS],
              Some (WebGLShader 2))"
    by (simp_all add: createShader_def mock_gl_no_link_def mock_gl_def)
  have bv: "createShader mock_gl_bad_fragment VERTEX_SHADER vertexShaderSource =
             ([CreateShader VERTEX_SHADER, ShaderSource (WebGLShader 1) vertexShaderSource,
               CompileShader (WebGLShader 1), GetShaderParameter (WebGLShader 1) COMPILE_STATUS],
              Some (WebGLShader 1))"
    and bf: "createShader mock_gl_bad_fragment FRAGMENT_SHADER fragmentShaderSource =
             ([CreateShader FRAGMENT_SHADER, ShaderSource (WebGLShader 2) fragmentShaderSource,
               CompileShader (WebGLShader 2), GetShaderParameter (WebGLShader 2) COMPILE_STATUS,
               GetShaderInfoLog (WebGLShader 2),
               ConsoleError ''An error occurred compiling the shaders: ERROR: 0:2'',
               DeleteShader (WebGLShader 2)], None)"
    by (simp_all add: createShader_def mock_gl_bad_fragment_def mock_gl_def plus_str_def)
  have l: "\<not> links mock_gl_no_link"
    and lp: "gl_createProgram mock_gl_no_link = Some (WebGLProgram 3)"
    and ll: "gl_getProgramInfoLog mock_gl_no_link (Some (WebGLProgram 3)) = None"
    by (simp_all add: links_def mock_gl_no_link_def mock_gl_def)
  show ?thesis
    using shader_helpers_protocol
            [where gl = mock_gl_no_shader and type = VERTEX_SHADER
               and source = vertexShaderSource]
          shader_helpers_protocol
            [where gl = mock_gl and type = FRAGMENT_SHADER and sh = "WebGLShader 2"
               and source = fragmentShaderSource]
          shader_helpers_protocol
            [where gl = mock_gl_bad_fragment and type = FRAGMENT_SHADER and sh = "WebGLShader 2"
               and source = fragmentShaderSource and vertexSource = vertexShaderSource
               and fragmentSource = fragmentShaderSource]
          shader_helpers_protocol
            [where gl = mock_gl_no_link and vertexSource = vertexShaderSource
               and fragmentSource = fragmentShaderSource and vs = "WebGLShader 1"
               and fs = "WebGLShader 2"
               and tv = "fst (createShader mock_gl_no_link VERTEX_SHADER vertexShaderSource)"
               and tf = "fst (createShader mock_gl_no_link FRAGMENT_SHADER fragmentShaderSource)"]
          v f bv bf l lp ll
    by (simp add: mock_gl_no_shader_def mock_gl_bad_fragment_def mock_gl_def plus_str_def)
qed

text \<open>
  The claim as written fails where the host returns no shader object: nothing is
  submitted, compiled or checked.
\<close>

theorem createShader_without_shader_object:
  "createShader mock_gl_no_shader VERTEX_SHADER vertexShaderSource =
     ([CreateShader VERTEX_SHADER, ConsoleError ''Error creating shader.''], None)
   \<and> \<not> list_ex is_CompileShader
         (fst (createShader mock_gl_no_shader VERTEX_SHADER vertexShaderSource))"
  by (simp add: createShader_def mock_gl_no_shader_def mock_gl_def)

section \<open>The read and the digest\<close>

text \<open>
  C7.  In every run that resolves, the buffer handed to the read has exactly
  \<open>canvas.width * canvas.height * 4\<close> bytes; the read is for the rectangle at (0, 0) of
  the full width and height, in RGBA and unsigned bytes; the buffer as the read leaves it,
  still of that length, is the argument of the one digest call, which is the last call of
  the run; no other read or digest call is made.
\<close>

theorem readback_extent_and_single_digest:
  assumes "result (createDeviceFingerprint host) = Inr s"
  shows "\<exists>gl pre.
           getContext host ''webgl'' = Some gl
           \<and> calls (createDeviceFingerprint host) =
               pre @ [ReadPixels 0 0 (width (createElement host ''canvas''))
                        (height (createElement host ''canvas'')) RGBA UNSIGNED_BYTE
                        (replicate (width (createElement host ''canvas'')
                                    * height (createElement host ''canvas'') * 4) 0),
                      Digest ''SHA-256'' (readback host gl)]
           \<and> \<not> list_ex is_ReadPixels pre \<and> \<not> list_ex is_Digest pre
           \<and> length (readback host gl) =
               width (createElement host ''canvas'') * height (createElement host ''canvas'') * 4
           \<and> s = hex_encode (sha256 (readback host gl))"
proof -
  from assms obtain gl p where ctx: "getContext host ''webgl'' = Some gl"
    and prog: "snd (createShaderProgram gl vertexShaderSource fragmentShaderSource) = Some p"
    by (rule cdf_success_inv)
  let ?pre = "[CreateElement ''canvas'', GetContext ''webgl'']
            @ fst (createShaderProgram gl vertexShaderSource fragmentShaderSource)
            @ [UseProgram p,
               CreateBuffer,
               BindBuffer ARRAY_BUFFER (gl_createBuffer gl),
               BufferData ARRAY_BUFFER [0, 1, - 1, - 1, 1, - 1] STATIC_DRAW,
               GetAttribLocation p ''aVertexPosition'',
               EnableVertexAttribArray (gl_getAttribLocation gl p ''aVertexPosition''),
               VertexAttribPointer (gl_getAttribLocation gl p ''aVertexPosition'') 2 FLOAT False 0 0,
               GetUniformLocation p ''uColor'',
               Uniform4f (gl_getUniformLocation gl p ''uColor'') 1 1 0 1,
               ClearColor 0 0 0 1,
               Clear COLOR_BUFFER_BIT,
               DrawArrays TRIANGLES 0 3]"
  have a: "calls (createDeviceFingerprint host) =
             ?pre @ [ReadPixels 0 0 (width (createElement host ''canvas''))
                        (height (createElement host ''canvas'')) RGBA UNSIGNED_BYTE
                        (replicate (width (createElement host ''canvas'')
                                    * height (createElement host ''canvas'') * 4) 0),
                      Digest ''SHA-256'' (readback host gl)]"
    by (rule cdf_success(2) [OF ctx prog])
  have b: "\<not> list_ex is_ReadPixels ?pre" and c: "\<not> list_ex is_Digest ?pre"
    using createShaderProgram_no_ReadPixels [of gl vertexShaderSource fragmentShaderSource]
          createShaderProgram_no_Digest [of gl vertexShaderSource fragmentShaderSource]
    by simp_all
  from fingerprint_digest [OF ctx assms] ctx a b c length_readback [of host gl]
  show ?thesis by blast
qed

theorem readback_extent_and_single_digest_witness:
  "result (createDeviceFingerprint (mock_host 1 1 (Some mock_gl))) =
     Inr ''df3f619804a92fdb4057192dc43dd748ea778adc52bc498ce80524c014b81119''
   \<and> (\<exists>gl pre.
         getContext (mock_host 1 1 (Some mock_gl)) ''webgl'' = Some gl
         \<and> calls (createDeviceFingerprint (mock_host 1 1 (Some mock_gl))) =
             pre @ [ReadPixels 0 0 1 1 RGBA UNSIGNED_BYTE [0, 0, 0, 0],
                    Digest ''SHA-256'' [0, 0, 0, 0]]
         \<and> \<not> list_ex is_ReadPixels pre \<and> \<not> list_ex is_Digest pre)"
proof -
  from readback_extent_and_single_digest [OF mock_result]
  obtain gl pre where ctx: "getContext (mock_host 1 1 (Some mock_gl)) ''webgl'' = Some gl"
    and c: "calls (createDeviceFingerprint (mock_host 1 1 (Some mock_gl))) =
               pre @ [ReadPixels 0 0 (width (createElement (mock_host 1 1 (Some mock_gl)) ''canvas''))
                        (height (createElement (mock_host 1 1 (Some mock_gl)) ''canvas''))
                        RGBA UNSIGNED_BYTE
                        (replicate (width (createElement (mock_host 1 1 (Some mock_gl)) ''canvas'')
                                    * height (createElement (mock_host 1 1 (Some mock_gl)) ''canvas'')
                                    * 4) 0),
                      Digest ''SHA-256'' (readback (mock_host 1 1 (Some mock_gl)) gl)]"
    and n: "\<not> list_ex is_ReadPixels pre" "\<not> list_ex is_Digest pre"
    by blast
  from ctx have gl: "gl = mock_gl" by (simp add: mock_context)
  have d: "width (createElement (mock_host 1 1 (Some mock_gl)) ''canvas'') = 1"
    "height (createElement (mock_host 1 1 (Some mock_gl)) ''canvas'') = 1"
    by (simp_all add: mock_host_def mock_canvas_def)
  have e: "replicate (1 * 1 * 4) (0 :: byte) = [0, 0, 0, 0]"
    by (simp add: numeral_eq_Suc)
  from c have "calls (createDeviceFingerprint (mock_host 1 1 (Some mock_gl))) =
             pre @ [ReadPixels 0 0 1 1 RGBA UNSIGNED_BYTE [0, 0, 0, 0],
                    Digest ''SHA-256'' [0, 0, 0, 0]]"
    by (simp only: gl d e mock_readback)
  with ctx n mock_result show ?thesis by blast
qed

section \<open>The two files\<close>

lemma createShader_js_eq: "createShader_js gl type source = createShader gl type source"
  by (simp add: createShader_js_def createShader_def Let_def split: option.splits)

lemma createShaderProgram_js_eq:
  "createShaderProgram_js gl vertexSource fragmentSource
     = createShaderProgram gl vertexSource fragmentSource"
  by (simp add: createShaderProgram_js_def createShaderProgram_def createShader_js_eq)

lemma shader_sources_js_eq:
  "vertexShaderSource_js = vertexShaderSource" "fragmentShaderSource_js = fragmentShaderSource"
  by (simp_all add: vertexShaderSource_js_def vertexShaderSource_def
                    fragmentShaderSource_js_def fragmentShaderSource_def)

lemma createDeviceFingerprint_js_eq:
  "createDeviceFingerprint_js host = createDeviceFingerprint host"
  by (simp add: createDeviceFingerprint_js_def createDeviceFingerprint_def Let_def
                createShaderProgram_js_eq shader_sources_js_eq
           split: option.splits prod.splits)

lemma cdf_no_sink: "\<not> list_ex is_sink (calls (createDeviceFingerprint host))"
proof (cases "getContext host ''webgl''")
  case None
  then show ?thesis by (simp add: cdf_no_context)
next
  case (Some gl)
  note ns = createShaderProgram_no_sink [of gl vertexShaderSource fragmentShaderSource]
  show ?thesis
  proof (cases "snd (createShaderProgram gl vertexShaderSource fragmentShaderSource)")
    case None
    with ns show ?thesis by (simp add: cdf_pipeline_failed(1) [OF Some None])
  next
    case (Some p)
    with ns show ?thesis by (simp add: cdf_success(2) [OF \<open>getContext host ''webgl'' = Some gl\<close> Some])
  qed
qed

text \<open>
  C8.  The function of \<open>fp.js\<close> and the function of \<open>fingerprint.ts\<close> are the same function
  of the host: same calls, same canvas, same string or same rejection.  The two files, run
  as a whole, make the calls of that function, none of which is an output call, followed
  by output calls only: a \<open>console.log\<close> in one, \<open>getElementById\<close> and the write of the text
  content in the other.
\<close>

theorem typed_and_untyped_agree:
  "createDeviceFingerprint_js host = createDeviceFingerprint host
   \<and> \<not> list_ex is_sink (calls (createDeviceFingerprint host))
   \<and> take (length (calls (createDeviceFingerprint host))) (fst (fingerprint_ts host))
       = calls (createDeviceFingerprint host)
   \<and> take (length (calls (createDeviceFingerprint host))) (fst (fp_js host))
       = calls (createDeviceFingerprint host)
   \<and> list_all is_sink (drop (length (calls (createDeviceFingerprint host)))
                          (fst (fingerprint_ts host)))
   \<and> list_all is_sink (drop (length (calls (createDeviceFingerprint host))) (fst (fp_js host)))
   \<and> drop (length (calls (createDeviceFingerprint host))) (fst (fingerprint_ts host))
       = (case result (createDeviceFingerprint host) of
            Inl e \<Rightarrow> []
          | Inr fingerprint \<Rightarrow> [ConsoleLog [''Device fingerprint:'', fingerprint]])
   \<and> drop (length (calls (createDeviceFingerprint host))) (fst (fp_js host))
       = (case result (createDeviceFingerprint host) of
            Inl e \<Rightarrow> []
          | Inr fingerprint \<Rightarrow>
              (case getElementById host ''fingerprint'' of
                 None \<Rightarrow> [GetElementById ''fingerprint'']
               | Some el \<Rightarrow> [GetElementById ''fingerprint'', SetTextContent el fingerprint]))"
  using cdf_no_sink [of host]
  by (simp add: createDeviceFingerprint_js_eq fingerprint_ts_def fp_js_def Let_def
           split: sum.splits option.splits)

theorem typed_and_untyped_agree_witness:
  "createDeviceFingerprint_js (mock_host 1 1 (Some mock_gl))
     = createDeviceFingerprint (mock_host 1 1 (Some mock_gl))
   \<and> drop (length (calls (createDeviceFingerprint (mock_host 1 1 (Some mock_gl)))))
        (fst (fingerprint_ts (mock_host 1 1 (Some mock_gl))))
       = [ConsoleLog [''Device fingerprint:'',
                      ''df3f619804a92fdb4057192dc43dd748ea778adc52bc498ce80524c014b81119'']]
   \<and> drop (length (calls (createDeviceFingerprint (mock_host 1 1 (Some mock_gl)))))
        (fst (fp_js (mock_host 1 1 (Some mock_gl))))
       = [GetElementById ''fingerprint'',
          SetTextContent (Element 6)
            ''df3f619804a92fdb4057192dc43dd748ea778adc52bc498ce80524c014b81119'']"
proof -
  have g: "getElementById (mock_host 1 1 (Some mock_gl)) ''fingerprint'' = Some (Element 6)"
    by (simp add: mock_host_def)
  from typed_and_untyped_agree [of "mock_host 1 1 (Some mock_gl)"]
  have a: "createDeviceFingerprint_js (mock_host 1 1 (Some mock_gl))
             = createDeviceFingerprint (mock_host 1 1 (Some mock_gl))"
    and b: "drop (length (calls (createDeviceFingerprint (mock_host 1 1 (Some mock_gl)))))
              (fst (fingerprint_ts (mock_host 1 1 (Some mock_gl))))
            = (case result (createDeviceFingerprint (mock_host 1 1 (Some mock_gl))) of
                 Inl e \<Rightarrow> []
               | Inr fingerprint \<Rightarrow> [ConsoleLog [''Device fingerprint:'', fingerprint]])"
    and c: "drop (length (calls (createDeviceFingerprint (mock_host 1 1 (Some mock_gl)))))
              (fst (fp_js (mock_host 1 1 (Some mock_gl))))
            = (case result (createDeviceFingerprint (mock_host 1 1 (Some mock_gl))) of
                 Inl e \<Rightarrow> []
               | Inr fingerprint \<Rightarrow>
                   (case getElementById (mock_host 1 1 (Some mock_gl)) ''fingerprint'' of
                      None \<Rightarrow> [GetElementById ''fingerprint'']
                    | Some el \<Rightarrow> [GetElementById ''fingerprint'',
                                  SetTextContent el fingerprint]))"
    by blast+
  from b have b': "drop (length (calls (createDeviceFingerprint (mock_host 1 1 (Some mock_gl)))))
              (fst (fingerprint_ts (mock_host 1 1 (Some mock_gl))))
       = [ConsoleLog [''Device fingerprint:'',
                      ''df3f619804a92fdb4057192dc43dd748ea778adc52bc498ce80524c014b81119'']]"
    by (simp only: mock_result sum.case)
  from c have c': "drop (length (calls (createDeviceFingerprint (mock_host 1 1 (Some mock_gl)))))
              (fst (fp_js (mock_host 1 1 (Some mock_gl))))
       = [GetElementById ''fingerprint'',
          SetTextContent (Element 6)
            ''df3f619804a92fdb4057192dc43dd748ea778adc52bc498ce80524c014b81119'']"
    by (simp only: mock_result g sum.case option.case)
  from a b' c' show ?thesis by blast
qed

section \<open>The canvas\<close>

text \<open>
  C9.  The four style assignments leave \<open>canvas.width\<close> and \<open>canvas.height\<close> as the host
  created them, while the CSS width and height become \<open>1px\<close>.  In a run that resolves, the
  read is for the drawing-buffer width and height and its buffer has width * height * 4
  bytes: on a canvas of the default 300 by 150 that is a read of 300 by 150 into 180000
  bytes, not of one pixel into 4.
\<close>

theorem style_leaves_drawing_buffer:
  assumes "getContext host ''webgl'' = Some gl"
    and "result (createDeviceFingerprint host) = Inr s"
  shows "width (canvas (createDeviceFingerprint host)) = width (createElement host ''canvas'')
       \<and> height (canvas (createDeviceFingerprint host)) = height (createElement host ''canvas'')
       \<and> style_width (style (canvas (createDeviceFingerprint host))) = ''1px''
       \<and> style_height (style (canvas (createDeviceFingerprint host))) = ''1px''
       \<and> style_position (style (canvas (createDeviceFingerprint host))) = ''absolute''
       \<and> style_top (style (canvas (createDeviceFingerprint host))) = ''-9999px''
       \<and> ReadPixels 0 0 (width (createElement host ''canvas''))
            (height (createElement host ''canvas'')) RGBA UNSIGNED_BYTE
            (replicate (width (createElement host ''canvas'')
                        * height (createElement host ''canvas'') * 4) 0)
           \<in> set (calls (createDeviceFingerprint host))
       \<and> (width (createElement host ''canvas'') = 300
            \<and> height (createElement host ''canvas'') = 150 \<longrightarrow>
           ReadPixels 0 0 300 150 RGBA UNSIGNED_BYTE (replicate 180000 0)
             \<in> set (calls (createDeviceFingerprint host))
           \<and> length (readback host gl) = 180000)"
proof -
  from assms(2) obtain gl' p where ctx: "getContext host ''webgl'' = Some gl'"
    and prog: "snd (createShaderProgram gl' vertexShaderSource fragmentShaderSource) = Some p"
    by (rule cdf_success_inv)
  have r: "ReadPixels 0 0 (width (createElement host ''canvas''))
            (height (createElement host ''canvas'')) RGBA UNSIGNED_BYTE
            (replicate (width (createElement host ''canvas'')
                        * height (createElement host ''canvas'') * 4) 0)
           \<in> set (calls (createDeviceFingerprint host))"
    by (simp add: cdf_success(2) [OF ctx prog])
  have "ReadPixels 0 0 300 150 RGBA UNSIGNED_BYTE (replicate 180000 0)
             \<in> set (calls (createDeviceFingerprint host))
        \<and> length (readback host gl) = 180000"
    if "width (createElement host ''canvas'') = 300"
      and "height (createElement host ''canvas'') = 150"
    using r length_readback [of host gl] by (simp add: that)
  with r show ?thesis
    by (simp add: cdf_canvas [OF assms(1)])
qed

theorem style_leaves_drawing_buffer_witness:
  "getContext (mock_host 300 150 (Some mock_gl)) ''webgl'' = Some mock_gl
   \<and> result (createDeviceFingerprint (mock_host 300 150 (Some mock_gl)))
       = Inr (hex_encode (sha256 (readback (mock_host 300 150 (Some mock_gl)) mock_gl)))
   \<and> width (createElement (mock_host 300 150 (Some mock_gl)) ''canvas'') = 300
   \<and> height (createElement (mock_host 300 150 (Some mock_gl)) ''canvas'') = 150
   \<and> width (canvas (createDeviceFingerprint (mock_host 300 150 (Some mock_gl)))) = 300
   \<and> height (canvas (createDeviceFingerprint (mock_host 300 150 (Some mock_gl)))) = 150
   \<and> style_width (style (canvas (createDeviceFingerprint (mock_host 300 150 (Some mock_gl)))))
       = ''1px''
   \<and> style_height (style (canvas (createDeviceFingerprint (mock_host 300 150 (Some mock_gl)))))
       = ''1px''
   \<and> ReadPixels 0 0 300 150 RGBA UNSIGNED_BYTE (replicate 180000 0)
       \<in> set (calls (createDeviceFingerprint (mock_host 300 150 (Some mock_gl))))
   \<and> length (readback (mock_host 300 150 (Some mock_gl)) mock_gl) = 180000"
proof -
  have ok: "result (createDeviceFingerprint (mock_host 300 150 (Some mock_gl)))
       = Inr (hex_encode (sha256 (readback (mock_host 300 150 (Some mock_gl)) mock_gl)))"
    by (rule cdf_success(1) [OF mock_context mock_program])
  have d: "width (createElement (mock_host 300 150 (Some mock_gl)) ''canvas'') = 300"
    "height (createElement (mock_host 300 150 (Some mock_gl)) ''canvas'') = 150"
    by (simp_all add: mock_host_def mock_canvas_def)
  from style_leaves_drawing_buffer [OF mock_context ok] d mock_context [of 300 150 "Some mock_gl"] ok
  show ?thesis by simp
qed

section \<open>Unchecked results\<close>









end
